theory Spec2Isabelle
  imports Main
begin

section \<open>ClipManager: \<^verbatim>\<open>record_clip.py\<close>\<close>

text \<open>
  The program is one Python module:
  \<^verbatim>\<open>
  import os
  from datetime import datetime

  def record_clip():
      now = datetime.now().strftime("%Y-%m-%d_%H-%M-%S")
      os.system(f"ffmpeg -i rtsp://<camera_ip>:554/h264Preview_01_main -t 30 -vcodec copy /var/www/html/clips/{now}.mp4")

  record_clip()
  \<close>
  It reads the clock, formats the reading, puts it into a command line and hands the
  command line to the system shell. The embedding below follows these four steps. The
  shell and the program it starts are not part of the repository: they are a parameter
  of the model.
\<close>

subsection \<open>The clock reading\<close>

text \<open>
  \<^verbatim>\<open>datetime.now()\<close> returns a naive \<^verbatim>\<open>datetime\<close> object. Its attributes are
  Python integers, and the constructor keeps them in the ranges of \<open>valid_datetime\<close>
  (\<^verbatim>\<open>MINYEAR = 1\<close>, \<^verbatim>\<open>MAXYEAR = 9999\<close>, no leap second).
\<close>

record datetime =
  year :: nat
  month :: nat
  day :: nat
  hour :: nat
  minute :: nat
  second :: nat
  microsecond :: nat

definition is_leap :: "nat \<Rightarrow> bool" where
  "is_leap y = (y mod 4 = 0 \<and> (y mod 100 \<noteq> 0 \<or> y mod 400 = 0))"

definition days_in_month :: "nat \<Rightarrow> nat \<Rightarrow> nat" where
  "days_in_month y m =
     (if m = 2 then (if is_leap y then 29 else 28)
      else if m = 4 \<or> m = 6 \<or> m = 9 \<or> m = 11 then 30
      else 31)"

definition valid_datetime :: "datetime \<Rightarrow> bool" where
  "valid_datetime dt =
     (1 \<le> year dt \<and> year dt \<le> 9999 \<and>
      1 \<le> month dt \<and> month dt \<le> 12 \<and>
      1 \<le> day dt \<and> day dt \<le> days_in_month (year dt) (month dt) \<and>
      hour dt < 24 \<and> minute dt < 60 \<and> second dt < 60 \<and>
      microsecond dt < 1000000)"

subsection \<open>\<^verbatim>\<open>strftime\<close>\<close>

text \<open>
  \<open>digit_char n\<close> is \<^verbatim>\<open>chr(ord('0') + n)\<close>, \<open>str_nat\<close> is \<^verbatim>\<open>str\<close> on a non-negative
  integer, and \<open>zfill\<close> is \<^verbatim>\<open>str.zfill\<close> on a string without a sign.
\<close>

definition digit_char :: "nat \<Rightarrow> char" where
  "digit_char n = char_of (48 + n)"

fun str_nat :: "nat \<Rightarrow> string" where
  "str_nat n =
     (if n < 10 then [digit_char n]
      else str_nat (n div 10) @ [digit_char (n mod 10)])"

declare str_nat.simps [simp del]

definition zfill :: "nat \<Rightarrow> string \<Rightarrow> string" where
  "zfill width s = replicate (width - length s) (CHR ''0'') @ s"

text \<open>
  The conversions of \<^verbatim>\<open>strftime\<close> that the program's format uses, as Python documents
  them: \<^verbatim>\<open>%Y\<close> is the year with century, zero-padded to four digits (\<^verbatim>\<open>0001\<close> \<dots>
  \<^verbatim>\<open>9999\<close>); \<^verbatim>\<open>%m\<close>, \<^verbatim>\<open>%d\<close>, \<^verbatim>\<open>%H\<close>, \<^verbatim>\<open>%M\<close> and \<^verbatim>\<open>%S\<close> are the month, the day of the
  month, the hour (24-hour clock), the minute and the second, each zero-padded to two
  digits; \<^verbatim>\<open>%%\<close> is a percent sign. The other conversions of Python (names of days and
  months, time zones, week numbers) are outside this model, which leaves them as they
  are written; the program's format has none of them.
\<close>

definition directive :: "datetime \<Rightarrow> char \<Rightarrow> string" where
  "directive dt c =
     (if c = CHR ''Y'' then zfill 4 (str_nat (year dt))
      else if c = CHR ''m'' then zfill 2 (str_nat (month dt))
      else if c = CHR ''d'' then zfill 2 (str_nat (day dt))
      else if c = CHR ''H'' then zfill 2 (str_nat (hour dt))
      else if c = CHR ''M'' then zfill 2 (str_nat (minute dt))
      else if c = CHR ''S'' then zfill 2 (str_nat (second dt))
      else if c = CHR ''%'' then ''%''
      else [CHR ''%'', c])"

fun strftime :: "datetime \<Rightarrow> string \<Rightarrow> string" where
  "strftime dt [] = []"
| "strftime dt [c] = [c]"
| "strftime dt (c # d # cs) =
     (if c = CHR ''%'' then directive dt d @ strftime dt cs
      else c # strftime dt (d # cs))"

subsection \<open>The world and \<^verbatim>\<open>os.system\<close>\<close>

datatype pyval =
    PyNone
  | PyInt int
  | PyStr string
  | PyModule string
  | PyClass string
  | PyFunction string

text \<open>
  What the program can read or change: the clock that \<^verbatim>\<open>datetime.now()\<close> reads, the
  module's global names, the process environment (\<^verbatim>\<open>os.environ\<close>), the file system
  (path to contents), and, as a trace, the command lines handed to \<^verbatim>\<open>os.system\<close> so
  far, oldest first. The clock is the reading of the one call of \<^verbatim>\<open>datetime.now()\<close>; the
  time that passes during the capture is not modelled.
\<close>

record world =
  clock :: datetime
  globals :: "string \<rightharpoonup> pyval"
  environ :: "string \<rightharpoonup> string"
  files :: "string \<rightharpoonup> string"
  calls :: "string list"

text \<open>
  \<^verbatim>\<open>os.system(command)\<close> runs \<^verbatim>\<open>sh -c command\<close> in a child process, waits for it and
  returns its wait status (the exit code times 256 when the child exits). The child
  inherits the environment and sees the file system; it can change the file system, and
  nothing of the parent process. A shell is therefore a function from the command line,
  the environment and the file system to a status and a file system.
\<close>

type_synonym shell =
  "string \<Rightarrow> (string \<rightharpoonup> string) \<Rightarrow> (string \<rightharpoonup> string) \<Rightarrow> int \<times> (string \<rightharpoonup> string)"

definition datetime_now :: "world \<Rightarrow> datetime" where
  "datetime_now w = clock w"

definition os_system :: "shell \<Rightarrow> string \<Rightarrow> world \<Rightarrow> int \<times> world" where
  "os_system sh command w =
     (let (status, fs) = sh command (environ w) (files w)
      in (status, w\<lparr>files := fs, calls := calls w @ [command]\<rparr>))"

subsection \<open>\<^verbatim>\<open>record_clip\<close> and the module\<close>

text \<open>
  The function binds the local \<^verbatim>\<open>now\<close>, evaluates the f-string and calls \<^verbatim>\<open>os.system\<close>
  as an expression statement: the status is dropped, and the function falls off its end,
  which returns \<^verbatim>\<open>None\<close>.
\<close>

definition record_clip :: "shell \<Rightarrow> world \<Rightarrow> pyval \<times> world" where
  "record_clip sh w =
     (let now = strftime (datetime_now w) ''%Y-%m-%d_%H-%M-%S'';
          (status, w') =
            os_system sh
              (''ffmpeg -i rtsp://<camera_ip>:554/h264Preview_01_main -t 30 -vcodec copy /var/www/html/clips/''
                 @ now @ ''.mp4'') w
      in (PyNone, w'))"

text \<open>
  The module body, run with \<^verbatim>\<open>__name__\<close> bound to \<open>name\<close> (\<^verbatim>\<open>"__main__"\<close> for a script,
  the module's name for an import): two imports, the \<^verbatim>\<open>def\<close>, and the call, whose value
  is dropped. No statement reads \<^verbatim>\<open>__name__\<close>.
\<close>

definition module_body :: "shell \<Rightarrow> string \<Rightarrow> world \<Rightarrow> world" where
  "module_body sh name w =
     (let wa = w\<lparr>globals := (globals w)(''__name__'' \<mapsto> PyStr name)\<rparr>;
          wb = wa\<lparr>globals := (globals wa)(''os'' \<mapsto> PyModule ''os'')\<rparr>;
          wc = wb\<lparr>globals := (globals wb)(''datetime'' \<mapsto> PyClass ''datetime.datetime'')\<rparr>;
          wd = wc\<lparr>globals := (globals wc)(''record_clip'' \<mapsto> PyFunction ''record_clip'')\<rparr>;
          (r, we) = record_clip sh wd
      in we)"

subsection \<open>Observing an invocation\<close>

text \<open>
  The command lines that one invocation of \<open>record_clip\<close> hands to \<^verbatim>\<open>os.system\<close>: what
  the invocation appends to the trace.
\<close>

definition issued :: "shell \<Rightarrow> world \<Rightarrow> string list" where
  "issued sh w = drop (length (calls w)) (calls (snd (record_clip sh w)))"

text \<open>
  The words of a command line: the shell splits a line without quotes at blanks.
  \<open>split_blank\<close> scans the line with the word read so far; \<open>shell_words\<close> starts it. The
  characters \<^verbatim>\<open><\<close> and \<^verbatim>\<open>>\<close> of the placeholder \<^verbatim>\<open><camera_ip>\<close> are kept as the source
  writes them, inside their word: what the shell and the capture tool make of a word is
  theirs to decide. \<open>option_arg\<close> is the word that follows the first occurrence of an
  option in an argument list.
\<close>

definition is_blank :: "char \<Rightarrow> bool" where
  "is_blank c = (c = CHR '' '' \<or> c = CHR 0x09)"

fun split_blank :: "string \<Rightarrow> string \<Rightarrow> string list" where
  "split_blank cur [] = (if cur = [] then [] else [cur])"
| "split_blank cur (c # cs) =
     (if is_blank c then (if cur = [] then split_blank [] cs else cur # split_blank [] cs)
      else split_blank (cur @ [c]) cs)"

definition shell_words :: "string \<Rightarrow> string list" where
  "shell_words s = split_blank [] s"


text \<open>
  The characters that the shell does not take literally in an unquoted word: the
  operators, the quoting characters, the blanks and the newline, and the characters of
  substitution and of pattern matching.
\<close>

definition shell_special :: "char list" where
  "shell_special =
     ''|&;<>()$*?[]#~=%!{}'' @
     [CHR 0x60, CHR 0x5C, CHR 0x22, CHR 0x27, CHR 0x20, CHR 0x09, CHR 0x0A]"

subsection \<open>The specification's file name\<close>

text \<open>
  The specification's format \<^verbatim>\<open>YYYY-MM-DD_HH-MM-SS\<close>, digit by digit: four digits of the
  year, two of each other field, with the separators of the pattern. The destination is
  \<^verbatim>\<open>{outputDir}/{timestamp}.mp4\<close>.
\<close>

definition two_digits :: "nat \<Rightarrow> string" where
  "two_digits n = [digit_char (n div 10 mod 10), digit_char (n mod 10)]"

definition four_digits :: "nat \<Rightarrow> string" where
  "four_digits n =
     [digit_char (n div 1000 mod 10), digit_char (n div 100 mod 10),
      digit_char (n div 10 mod 10), digit_char (n mod 10)]"

definition spec_timestamp :: "datetime \<Rightarrow> string" where
  "spec_timestamp dt =
     four_digits (year dt) @ ''-'' @ two_digits (month dt) @ ''-'' @ two_digits (day dt)
       @ ''_'' @
     two_digits (hour dt) @ ''-'' @ two_digits (minute dt) @ ''-'' @ two_digits (second dt)"

definition output_dir :: string where
  "output_dir = ''/var/www/html/clips''"

definition spec_filename :: "datetime \<Rightarrow> string" where
  "spec_filename dt = spec_timestamp dt @ ''.mp4''"

definition spec_destination :: "datetime \<Rightarrow> string" where
  "spec_destination dt = output_dir @ ''/'' @ spec_filename dt"

text \<open>
  The specification's contract, \<^verbatim>\<open>recordClip() -> Result<FilePath, Error>\<close>: on exit code
  zero the result is the destination path, on a nonzero exit the operation has failed.
\<close>

datatype clip_result = Recorded string | Failed

definition spec_recordClip :: "int \<Rightarrow> datetime \<Rightarrow> clip_result" where
  "spec_recordClip status dt = (if status = 0 then Recorded (spec_destination dt) else Failed)"

subsection \<open>Concrete worlds and shells\<close>

text \<open>
  A clock reading, 9 March 2024 at 07:05:02.000123, a second one in the same second, and
  one a second later.
\<close>

definition dt0 :: datetime where
  "dt0 = \<lparr>year = 2024, month = 3, day = 9, hour = 7, minute = 5, second = 2,
          microsecond = 123\<rparr>"

definition dt0_later :: datetime where
  "dt0_later = \<lparr>year = 2024, month = 3, day = 9, hour = 7, minute = 5, second = 2,
                microsecond = 999999\<rparr>"

definition dt1 :: datetime where
  "dt1 = \<lparr>year = 2024, month = 3, day = 9, hour = 7, minute = 5, second = 3,
          microsecond = 123\<rparr>"

definition w0 :: world where
  "w0 = \<lparr>clock = dt0, globals = Map.empty, environ = Map.empty, files = Map.empty,
         calls = []\<rparr>"

definition w1 :: world where
  "w1 = \<lparr>clock = dt0,
         globals = [''record_clip'' \<mapsto> PyFunction ''record_clip''],
         environ = [''PATH'' \<mapsto> ''/usr/bin''],
         files = [''/var/www/html/clips/old.mp4'' \<mapsto> ''x''],
         calls = [''true'']\<rparr>"

text \<open>
  Three shells: one whose command always succeeds and writes the file named by the last
  word of the command line; one whose command exits with code 1 (wait status 256) after
  writing a truncated file; and one that cannot start the command at all (exit code 127,
  wait status 32512) and touches nothing.
\<close>

definition capture_ok :: shell where
  "capture_ok command env fs = (0, fs(last (shell_words command) \<mapsto> ''video''))"

definition capture_fails :: shell where
  "capture_fails command env fs = (256, fs(last (shell_words command) \<mapsto> []))"

definition not_found :: shell where
  "not_found command env fs = (32512, fs)"





section \<open>Properties\<close>

subsection \<open>Digits and padding\<close>

lemma digit_char_eq_iff: "a < 10 \<Longrightarrow> b < 10 \<Longrightarrow> digit_char a = digit_char b \<longleftrightarrow> a = b"
  by (simp add: digit_char_def)

lemma digit_char_table: "map digit_char [0..<10] = ''0123456789''"
  by code_simp

lemma digit_char_cases:
  "n < 10 \<Longrightarrow> digit_char n \<in> set ''0123456789''"
proof -
  assume "n < 10"
  then have "digit_char n \<in> set (map digit_char [0..<10])"
    by simp
  then show ?thesis
    by (simp only: digit_char_table)
qed

lemma digit_char_0: "digit_char 0 = CHR ''0''"
  by code_simp

lemma str_nat_digits: "set (str_nat n) \<subseteq> set ''0123456789''"
proof (induction n rule: str_nat.induct)
  case (1 n)
  show ?case
  proof (cases "n < 10")
    case True
    then show ?thesis
      using digit_char_cases [of n] by (subst str_nat.simps) simp
  next
    case False
    have "digit_char (n mod 10) \<in> set ''0123456789''"
      by (rule digit_char_cases) simp
    with False "1.IH" show ?thesis
      by (subst str_nat.simps) simp
  qed
qed

lemma str_nat_one: "n < 10 \<Longrightarrow> str_nat n = [digit_char n]"
  by (subst str_nat.simps) simp

lemma str_nat_two: "10 \<le> n \<Longrightarrow> n < 100 \<Longrightarrow> str_nat n = [digit_char (n div 10), digit_char (n mod 10)]"
  by (subst str_nat.simps) (simp add: str_nat_one)

lemma str_nat_three:
  "100 \<le> n \<Longrightarrow> n < 1000 \<Longrightarrow>
   str_nat n = [digit_char (n div 100), digit_char (n div 10 mod 10), digit_char (n mod 10)]"
  by (subst str_nat.simps) (simp add: str_nat_two div_mult2_eq [symmetric])

lemma str_nat_four:
  "1000 \<le> n \<Longrightarrow> n < 10000 \<Longrightarrow>
   str_nat n = [digit_char (n div 1000), digit_char (n div 100 mod 10),
                digit_char (n div 10 mod 10), digit_char (n mod 10)]"
  by (subst str_nat.simps) (simp add: str_nat_three div_mult2_eq [symmetric])

lemma replicate_zeros:
  "replicate (Suc 0) c = [c]" "replicate 2 c = [c, c]" "replicate 3 c = [c, c, c]"
  by (simp_all add: numeral_2_eq_2 numeral_3_eq_3)

lemma zfill_two: "n < 100 \<Longrightarrow> zfill 2 (str_nat n) = two_digits n"
proof (cases "n < 10")
  case True
  then show ?thesis
    by (simp add: zfill_def two_digits_def str_nat_one digit_char_0)
next
  case False
  assume "n < 100"
  with False show ?thesis
    by (simp add: zfill_def two_digits_def str_nat_two)
qed

lemma zfill_four: "n < 10000 \<Longrightarrow> zfill 4 (str_nat n) = four_digits n"
proof -
  assume n: "n < 10000"
  consider "n < 10" | "10 \<le> n" "n < 100" | "100 \<le> n" "n < 1000" | "1000 \<le> n"
    by linarith
  then show ?thesis
  proof cases
    case 1
    then show ?thesis
      by (simp add: zfill_def four_digits_def str_nat_one digit_char_0 replicate_zeros)
  next
    case 2
    then show ?thesis
      by (simp add: zfill_def four_digits_def str_nat_two digit_char_0 replicate_zeros)
  next
    case 3
    then show ?thesis
      by (simp add: zfill_def four_digits_def str_nat_three digit_char_0 replicate_zeros)
  next
    case 4
    with n show ?thesis
      by (simp add: zfill_def four_digits_def str_nat_four)
  qed
qed

lemma strftime_format:
  "strftime dt ''%Y-%m-%d_%H-%M-%S'' =
     zfill 4 (str_nat (year dt)) @ ''-'' @ zfill 2 (str_nat (month dt)) @ ''-'' @
     zfill 2 (str_nat (day dt)) @ ''_'' @ zfill 2 (str_nat (hour dt)) @ ''-'' @
     zfill 2 (str_nat (minute dt)) @ ''-'' @ zfill 2 (str_nat (second dt))"
  by (simp add: directive_def)

declare strftime.simps [simp del]

subsection \<open>The format of the program and the specification's pattern\<close>

lemma days_in_month_le: "days_in_month y m \<le> 31"
  by (simp add: days_in_month_def)

lemma strftime_valid: "valid_datetime dt \<Longrightarrow> strftime dt ''%Y-%m-%d_%H-%M-%S'' = spec_timestamp dt"
proof -
  assume v: "valid_datetime dt"
  have d: "day dt \<le> 31"
    using v days_in_month_le [of "year dt" "month dt"] by (simp add: valid_datetime_def)
  from v have "year dt < 10000" "month dt < 100" "hour dt < 100" "minute dt < 100"
    "second dt < 100"
    by (simp_all add: valid_datetime_def)
  moreover from d have "day dt < 100" by simp
  ultimately show ?thesis
    by (simp only: strftime_format spec_timestamp_def zfill_two zfill_four)
qed

lemma length_spec_timestamp: "length (spec_timestamp dt) = 19"
  by (simp add: spec_timestamp_def two_digits_def four_digits_def)

subsection \<open>Digits determine the number\<close>

lemma two_digits_value:
  fixes n :: nat
  assumes "n < 100"
  shows "n = 10 * (n div 10 mod 10) + n mod 10"
proof -
  from assms have "n div 10 < 10"
    by (simp add: less_mult_imp_div_less)
  then have "n div 10 mod 10 = n div 10"
    by simp
  then show ?thesis
    by simp
qed

lemma four_digits_value:
  fixes n :: nat
  assumes "n < 10000"
  shows "n = 1000 * (n div 1000 mod 10) + 100 * (n div 100 mod 10) +
             10 * (n div 10 mod 10) + n mod 10"
proof -
  define q1 where "q1 = n div 10"
  define q2 where "q2 = q1 div 10"
  define q3 where "q3 = q2 div 10"
  have d2: "n div 100 = q2"
    unfolding q2_def q1_def by (simp add: div_mult2_eq [symmetric])
  have d3: "n div 1000 = q3"
    unfolding q3_def q2_def q1_def by (simp add: div_mult2_eq [symmetric])
  from assms have "n div 1000 < 10"
    by (simp add: less_mult_imp_div_less)
  then have m3: "q3 mod 10 = q3"
    by (simp add: d3)
  have e1: "n = 10 * q1 + n mod 10"
    unfolding q1_def by simp
  have e2: "q1 = 10 * q2 + q1 mod 10"
    unfolding q2_def by simp
  have e3: "q2 = 10 * q3 + q2 mod 10"
    unfolding q3_def by simp
  have "n = 1000 * q3 + 100 * (q2 mod 10) + 10 * (q1 mod 10) + n mod 10"
    using e1 e2 e3 by linarith
  then show ?thesis
    by (simp only: d2 d3 m3 q1_def [symmetric])
qed


lemma two_digits_inj:
  assumes "n < 100" "m < 100" "two_digits n = two_digits m"
  shows "n = m"
proof -
  from assms(3) have "n div 10 mod 10 = m div 10 mod 10" "n mod 10 = m mod 10"
    by (simp_all add: two_digits_def digit_char_eq_iff)
  then have "10 * (n div 10 mod 10) + n mod 10 = 10 * (m div 10 mod 10) + m mod 10"
    by simp
  then show ?thesis
    by (simp only: two_digits_value [OF assms(1), symmetric]
        two_digits_value [OF assms(2), symmetric])
qed

lemma four_digits_inj:
  assumes "n < 10000" "m < 10000" "four_digits n = four_digits m"
  shows "n = m"
proof -
  from assms(3) have "n div 1000 mod 10 = m div 1000 mod 10"
    "n div 100 mod 10 = m div 100 mod 10"
    "n div 10 mod 10 = m div 10 mod 10" "n mod 10 = m mod 10"
    by (simp_all add: four_digits_def digit_char_eq_iff)
  then have "1000 * (n div 1000 mod 10) + 100 * (n div 100 mod 10) +
             10 * (n div 10 mod 10) + n mod 10 =
             1000 * (m div 1000 mod 10) + 100 * (m div 100 mod 10) +
             10 * (m div 10 mod 10) + m mod 10"
    by simp
  then show ?thesis
    by (simp only: four_digits_value [OF assms(1), symmetric]
        four_digits_value [OF assms(2), symmetric])
qed

subsection \<open>The timestamp determines the second\<close>

lemma length_digits: "length (two_digits n) = 2" "length (four_digits n) = 4"
  by (simp_all add: two_digits_def four_digits_def)

lemma spec_timestamp_eq_iff:
  "spec_timestamp a = spec_timestamp b \<longleftrightarrow>
     four_digits (year a) = four_digits (year b) \<and>
     two_digits (month a) = two_digits (month b) \<and>
     two_digits (day a) = two_digits (day b) \<and>
     two_digits (hour a) = two_digits (hour b) \<and>
     two_digits (minute a) = two_digits (minute b) \<and>
     two_digits (second a) = two_digits (second b)"
  by (simp add: spec_timestamp_def append_eq_append_conv length_digits)

lemma valid_datetime_bounds:
  assumes "valid_datetime dt"
  shows "year dt < 10000" "month dt < 100" "day dt < 100" "hour dt < 100"
    "minute dt < 100" "second dt < 100"
proof -
  have "day dt \<le> 31"
    using assms days_in_month_le [of "year dt" "month dt"] by (simp add: valid_datetime_def)
  then show "day dt < 100" by simp
  from assms show "year dt < 10000" "month dt < 100" "hour dt < 100"
    "minute dt < 100" "second dt < 100"
    by (simp_all add: valid_datetime_def)
qed


lemma spec_timestamp_inj:
  assumes a: "valid_datetime a" and b: "valid_datetime b"
    and eq: "spec_timestamp a = spec_timestamp b"
  shows "year a = year b \<and> month a = month b \<and> day a = day b \<and>
         hour a = hour b \<and> minute a = minute b \<and> second a = second b"
proof -
  note ba = valid_datetime_bounds [OF a] and bb = valid_datetime_bounds [OF b]
  from eq have d: "four_digits (year a) = four_digits (year b)"
    "two_digits (month a) = two_digits (month b)"
    "two_digits (day a) = two_digits (day b)"
    "two_digits (hour a) = two_digits (hour b)"
    "two_digits (minute a) = two_digits (minute b)"
    "two_digits (second a) = two_digits (second b)"
    by (simp_all only: spec_timestamp_eq_iff)
  have "year a = year b"
    using ba(1) bb(1) d(1) by (rule four_digits_inj)
  moreover have "month a = month b"
    using ba(2) bb(2) d(2) by (rule two_digits_inj)
  moreover have "day a = day b"
    using ba(3) bb(3) d(3) by (rule two_digits_inj)
  moreover have "hour a = hour b"
    using ba(4) bb(4) d(4) by (rule two_digits_inj)
  moreover have "minute a = minute b"
    using ba(5) bb(5) d(5) by (rule two_digits_inj)
  moreover have "second a = second b"
    using ba(6) bb(6) d(6) by (rule two_digits_inj)
  ultimately show ?thesis
    by simp
qed

subsection \<open>The characters of the timestamp\<close>

lemma set_zfill: "set (zfill width s) \<subseteq> insert (CHR ''0'') (set s)"
  by (auto simp add: zfill_def)

lemma digits_allowed: "set ''0123456789'' \<subseteq> set ''0123456789-_''"
  by simp

lemma zfill_str_nat_chars: "set (zfill width (str_nat n)) \<subseteq> set ''0123456789-_''"
proof -
  have "CHR ''0'' \<in> set ''0123456789''"
    by simp
  then have "insert (CHR ''0'') (set (str_nat n)) \<subseteq> set ''0123456789''"
    using str_nat_digits [of n] by (rule insert_subsetI)
  with set_zfill [of width "str_nat n"] have "set (zfill width (str_nat n)) \<subseteq> set ''0123456789''"
    by (rule subset_trans)
  then show ?thesis
    using digits_allowed by (rule subset_trans)
qed

lemma strftime_chars: "set (strftime dt ''%Y-%m-%d_%H-%M-%S'') \<subseteq> set ''0123456789-_''"
proof -
  define A where "A = set ''0123456789-_''"
  have z: "set (zfill width (str_nat n)) \<subseteq> A" for width n
    unfolding A_def by (rule zfill_str_nat_chars)
  have s: "set ''-'' \<subseteq> A" "set ''_'' \<subseteq> A"
    unfolding A_def by simp_all
  have "set (strftime dt ''%Y-%m-%d_%H-%M-%S'') \<subseteq> A"
    by (simp only: strftime_format set_append Un_subset_iff z s simp_thms)
  then show ?thesis
    unfolding A_def .
qed

lemma allowed_not_blank:
  assumes "c \<in> set ''0123456789-_''"
  shows "\<not> is_blank c"
proof -
  have "list_all (\<lambda>c. \<not> is_blank c) ''0123456789-_''"
    by code_simp
  then have "\<forall>c\<in>set ''0123456789-_''. \<not> is_blank c"
    by (simp only: list_all_iff)
  with assms show ?thesis
    by blast
qed

lemma strftime_no_blank: "c \<in> set (strftime dt ''%Y-%m-%d_%H-%M-%S'') \<Longrightarrow> \<not> is_blank c"
  using strftime_chars [of dt] allowed_not_blank [of c] by blast

lemma allowed_not_special: "set ''0123456789-_'' \<inter> set shell_special = {}"
proof -
  have "list_all (\<lambda>c. list_all (\<lambda>d. c \<noteq> d) shell_special) ''0123456789-_''"
    by code_simp
  then have "\<forall>c\<in>set ''0123456789-_''. \<forall>d\<in>set shell_special. c \<noteq> d"
    by (simp only: list_all_iff)
  then show ?thesis
    by blast
qed

subsection \<open>The command line\<close>

lemma split_blank_append:
  "(\<And>c. c \<in> set s \<Longrightarrow> \<not> is_blank c) \<Longrightarrow> split_blank cur (s @ rest) = split_blank (cur @ s) rest"
  by (induction s arbitrary: cur) simp_all

lemma command_words:
  assumes "\<And>c. c \<in> set now \<Longrightarrow> \<not> is_blank c"
  shows "shell_words
      (''ffmpeg -i rtsp://<camera_ip>:554/h264Preview_01_main -t 30 -vcodec copy /var/www/html/clips/''
         @ now @ ''.mp4'') =
    [''ffmpeg'', ''-i'', ''rtsp://<camera_ip>:554/h264Preview_01_main'', ''-t'', ''30'',
     ''-vcodec'', ''copy'', ''/var/www/html/clips/'' @ now @ ''.mp4'']"
proof -
  have tail: "split_blank cur (now @ ''.mp4'') = [cur @ now @ ''.mp4'']" for cur
    by (simp add: split_blank_append [OF assms] is_blank_def)
  show ?thesis
    by (simp add: shell_words_def is_blank_def tail)
qed

lemma issued_eq:
  "issued sh w =
     [''ffmpeg -i rtsp://<camera_ip>:554/h264Preview_01_main -t 30 -vcodec copy /var/www/html/clips/''
        @ strftime (clock w) ''%Y-%m-%d_%H-%M-%S'' @ ''.mp4'']"
  by (simp add: issued_def record_clip_def os_system_def datetime_now_def Let_def
      split: prod.splits)

lemma issued_words:
  "map shell_words (issued sh w) =
     [[''ffmpeg'', ''-i'', ''rtsp://<camera_ip>:554/h264Preview_01_main'', ''-t'', ''30'',
       ''-vcodec'', ''copy'',
       ''/var/www/html/clips/'' @ strftime (clock w) ''%Y-%m-%d_%H-%M-%S'' @ ''.mp4'']]"
  by (simp only: issued_eq list.map command_words [OF strftime_no_blank])

lemma issued_destination:
  "map (last \<circ> shell_words) (issued sh w) =
     [''/var/www/html/clips/'' @ strftime (clock w) ''%Y-%m-%d_%H-%M-%S'' @ ''.mp4'']"
proof -
  have "map (last \<circ> shell_words) (issued sh w) = map last (map shell_words (issued sh w))"
    by simp
  also have "\<dots> = [''/var/www/html/clips/'' @ strftime (clock w) ''%Y-%m-%d_%H-%M-%S'' @ ''.mp4'']"
    by (simp only: issued_words) simp
  finally show ?thesis .
qed

lemma record_clip_world:
  "snd (record_clip sh w) =
     w\<lparr>files := snd (sh (''ffmpeg -i rtsp://<camera_ip>:554/h264Preview_01_main -t 30 -vcodec copy /var/www/html/clips/''
                          @ strftime (clock w) ''%Y-%m-%d_%H-%M-%S'' @ ''.mp4'')
                        (environ w) (files w)),
       calls := calls w @
         [''ffmpeg -i rtsp://<camera_ip>:554/h264Preview_01_main -t 30 -vcodec copy /var/www/html/clips/''
            @ strftime (clock w) ''%Y-%m-%d_%H-%M-%S'' @ ''.mp4'']\<rparr>"
  by (simp add: record_clip_def os_system_def datetime_now_def Let_def split: prod.splits)

lemma last_command_word:
  "last (shell_words
      (''ffmpeg -i rtsp://<camera_ip>:554/h264Preview_01_main -t 30 -vcodec copy /var/www/html/clips/''
         @ strftime dt ''%Y-%m-%d_%H-%M-%S'' @ ''.mp4'')) =
   ''/var/www/html/clips/'' @ strftime dt ''%Y-%m-%d_%H-%M-%S'' @ ''.mp4''"
  by (simp only: command_words [OF strftime_no_blank]) simp

text \<open>
  The usual case: when the command run by the shell changes the file system at most at
  the path that is the last word of its command line, an invocation leaves every file
  other than \<^verbatim>\<open>/var/www/html/clips/{timestamp}.mp4\<close> as it was.
\<close>

lemma record_clip_frame_under_contract:
  assumes "\<And>command env fs q. q \<noteq> last (shell_words command) \<Longrightarrow> snd (sh command env fs) q = fs q"
    and "p \<noteq> ''/var/www/html/clips/'' @ strftime (clock w) ''%Y-%m-%d_%H-%M-%S'' @ ''.mp4''"
  shows "globals (snd (record_clip sh w)) = globals w \<and>
         environ (snd (record_clip sh w)) = environ w \<and>
         files (snd (record_clip sh w)) p = files w p"
proof -
  have "snd (sh (''ffmpeg -i rtsp://<camera_ip>:554/h264Preview_01_main -t 30 -vcodec copy /var/www/html/clips/''
                   @ strftime (clock w) ''%Y-%m-%d_%H-%M-%S'' @ ''.mp4'')
               (environ w) (files w)) p = files w p"
    by (rule assms(1)) (simp only: last_command_word assms(2) not_False_eq_True)
  then show ?thesis
    by (simp add: record_clip_world)
qed

subsection \<open>The concrete inputs\<close>

lemma dt0_valid: "valid_datetime dt0"
  by (simp add: valid_datetime_def dt0_def days_in_month_def)

lemma dt0_timestamp: "strftime dt0 ''%Y-%m-%d_%H-%M-%S'' = ''2024-03-09_07-05-02''"
  by code_simp

lemma dt0_spec_destination: "spec_destination dt0 = ''/var/www/html/clips/2024-03-09_07-05-02.mp4''"
  by code_simp

lemma clock_w0: "clock w0 = dt0" "clock w1 = dt0"
  by (simp_all add: w0_def w1_def)

lemma dt1_valid: "valid_datetime dt1"
  by (simp add: valid_datetime_def dt1_def days_in_month_def)

lemma dt1_timestamp: "strftime dt1 ''%Y-%m-%d_%H-%M-%S'' = ''2024-03-09_07-05-03''"
  by code_simp

lemma dt0_later_timestamp: "strftime dt0_later ''%Y-%m-%d_%H-%M-%S'' = ''2024-03-09_07-05-02''"
proof -
  have "strftime dt0_later ''%Y-%m-%d_%H-%M-%S'' = strftime dt0 ''%Y-%m-%d_%H-%M-%S''"
    by (simp add: strftime_format dt0_def dt0_later_def)
  then show ?thesis
    by (simp only: dt0_timestamp)
qed

text \<open>
  Two readings of the clock within one second give one command line: the format has no
  conversion below the second.
\<close>

lemma same_second_same_filename:
  "issued sh (w\<lparr>clock := dt0\<rparr>) = issued sh' (w'\<lparr>clock := dt0_later\<rparr>) \<and> dt0 \<noteq> dt0_later"
proof -
  have "issued sh (w\<lparr>clock := dt0\<rparr>) = issued sh' (w'\<lparr>clock := dt0_later\<rparr>)"
    by (simp add: issued_eq dt0_timestamp dt0_later_timestamp)
  moreover have "microsecond dt0 \<noteq> microsecond dt0_later"
    by (simp add: dt0_later_def dt0_def)
  ultimately show ?thesis
    by auto
qed



section \<open>The claims\<close>

text \<open>
  C1, as amended. The claim says that the result of \<open>record_clip\<close> reflects the exit status
  of the capture process: the destination path on exit code zero, a failure otherwise.
  The function drops the status that \<^verbatim>\<open>os.system\<close> returns and has no \<^verbatim>\<open>return\<close>
  statement. What holds: for every shell and every world, \<open>record_clip\<close> returns \<^verbatim>\<open>None\<close>,
  whatever the status is, and the world it leaves is the one that its single call of
  \<^verbatim>\<open>os.system\<close> leaves: the outcome of the capture is visible in the file system only.
\<close>

theorem record_clip_returns_None:
  "fst (record_clip sh w) = PyNone \<and>
   map (\<lambda>c. snd (os_system sh c w)) (issued sh w) = [snd (record_clip sh w)]"
  by (simp add: issued_eq) (simp add: record_clip_def datetime_now_def Let_def split: prod.splits)

text \<open>
  C1 as stated fails: in the world \<open>w0\<close> the same command line is issued under a shell
  whose capture exits with status 0 and under one whose capture exits with status 256
  (exit code 1). The specification's results differ, the results of \<open>record_clip\<close> are
  equal, and on status 0 the result is not the destination path.
\<close>

theorem record_clip_result_counterexample:
  "fst (os_system capture_ok
          ''ffmpeg -i rtsp://<camera_ip>:554/h264Preview_01_main -t 30 -vcodec copy /var/www/html/clips/2024-03-09_07-05-02.mp4''
          w0) = 0 \<and>
   fst (os_system capture_fails
          ''ffmpeg -i rtsp://<camera_ip>:554/h264Preview_01_main -t 30 -vcodec copy /var/www/html/clips/2024-03-09_07-05-02.mp4''
          w0) = 256 \<and>
   issued capture_ok w0 = issued capture_fails w0 \<and>
   issued capture_ok w0 =
     [''ffmpeg -i rtsp://<camera_ip>:554/h264Preview_01_main -t 30 -vcodec copy /var/www/html/clips/2024-03-09_07-05-02.mp4''] \<and>
   spec_recordClip 0 (clock w0) \<noteq> spec_recordClip 256 (clock w0) \<and>
   fst (record_clip capture_ok w0) = fst (record_clip capture_fails w0) \<and>
   fst (record_clip capture_ok w0) \<noteq> PyStr (spec_destination (clock w0))"
proof -
  have "fst (record_clip sh w0) = PyNone" for sh
    by (simp add: record_clip_def os_system_def Let_def split: prod.splits)
  moreover have "issued sh w0 =
     [''ffmpeg -i rtsp://<camera_ip>:554/h264Preview_01_main -t 30 -vcodec copy /var/www/html/clips/2024-03-09_07-05-02.mp4'']" for sh
    by (simp only: issued_eq clock_w0 dt0_timestamp) simp
  moreover have "fst (os_system capture_ok c w0) = 0" "fst (os_system capture_fails c w0) = 256" for c
    by (simp_all add: os_system_def capture_ok_def capture_fails_def)
  moreover have "spec_recordClip 0 (clock w0) \<noteq> spec_recordClip 256 (clock w0)"
    by (simp add: spec_recordClip_def)
  ultimately show ?thesis
    by simp
qed

text \<open>
  C2. For every valid clock reading, the last word of the command line that \<open>record_clip\<close>
  issues, the destination path, is the specification's destination: the output directory
  \<^verbatim>\<open>/var/www/html/clips\<close>, a slash, and the file name, which is the nineteen characters
  of the pattern \<^verbatim>\<open>YYYY-MM-DD_HH-MM-SS\<close> followed by \<^verbatim>\<open>.mp4\<close>.
\<close>

theorem record_clip_destination_format:
  "valid_datetime (clock w) \<Longrightarrow>
   map (last \<circ> shell_words) (issued sh w) = [spec_destination (clock w)] \<and>
   spec_destination (clock w) = ''/var/www/html/clips/'' @ spec_timestamp (clock w) @ ''.mp4'' \<and>
   length (spec_timestamp (clock w)) = 19"
  by (simp only: issued_destination strftime_valid length_spec_timestamp)
     (simp add: spec_destination_def spec_filename_def output_dir_def)

theorem record_clip_destination_format_witness:
  "valid_datetime (clock w0) \<and>
   map (last \<circ> shell_words) (issued capture_ok w0) =
     [''/var/www/html/clips/2024-03-09_07-05-02.mp4'']"
  using record_clip_destination_format [of w0 capture_ok]
  by (simp only: clock_w0 dt0_valid dt0_spec_destination simp_thms)

text \<open>
  C4. Two invocations at different timestamps produce different file names: when the two
  clock readings are valid and differ in the year, the month, the day, the hour, the
  minute or the second, the timestamps differ and so do the destination paths of the two
  command lines, whatever the shells and the rest of the two worlds are.
\<close>

theorem record_clip_filenames_distinct:
  assumes "valid_datetime (clock w)" and "valid_datetime (clock w')"
    and "(year (clock w), month (clock w), day (clock w),
          hour (clock w), minute (clock w), second (clock w)) \<noteq>
         (year (clock w'), month (clock w'), day (clock w'),
          hour (clock w'), minute (clock w'), second (clock w'))"
  shows "strftime (clock w) ''%Y-%m-%d_%H-%M-%S'' \<noteq> strftime (clock w') ''%Y-%m-%d_%H-%M-%S'' \<and>
         map (last \<circ> shell_words) (issued sh w) \<noteq> map (last \<circ> shell_words) (issued sh' w')"
proof -
  have "spec_timestamp (clock w) \<noteq> spec_timestamp (clock w')"
  proof
    assume "spec_timestamp (clock w) = spec_timestamp (clock w')"
    with assms(1,2) have "year (clock w) = year (clock w') \<and> month (clock w) = month (clock w') \<and>
        day (clock w) = day (clock w') \<and> hour (clock w) = hour (clock w') \<and>
        minute (clock w) = minute (clock w') \<and> second (clock w) = second (clock w')"
      by (rule spec_timestamp_inj)
    with assms(3) show False
      by simp
  qed
  then have "strftime (clock w) ''%Y-%m-%d_%H-%M-%S'' \<noteq> strftime (clock w') ''%Y-%m-%d_%H-%M-%S''"
    by (simp only: strftime_valid [OF assms(1)] strftime_valid [OF assms(2)] simp_thms)
  then show ?thesis
    by (simp only: issued_destination) simp
qed

theorem record_clip_filenames_distinct_witness:
  "valid_datetime (clock w0) \<and> valid_datetime (clock (w1\<lparr>clock := dt1\<rparr>)) \<and>
   map (last \<circ> shell_words) (issued capture_ok w0) \<noteq>
   map (last \<circ> shell_words) (issued not_found (w1\<lparr>clock := dt1\<rparr>))"
proof -
  have c: "clock (w1\<lparr>clock := dt1\<rparr>) = dt1"
    by simp
  have "second dt0 \<noteq> second dt1"
    by (simp add: dt0_def dt1_def)
  then show ?thesis
    using record_clip_filenames_distinct [of w0 "w1\<lparr>clock := dt1\<rparr>" capture_ok not_found]
    by (simp only: c clock_w0 dt0_valid dt1_valid) simp
qed



text \<open>
  C5. When the shell cannot start the capture tool, and so leaves the file system as it
  found it, the file system after \<open>record_clip\<close> is the one before: the function creates
  no file of its own. In general the file system after the invocation is exactly the one
  that the shell returned for the single command line.
\<close>

theorem record_clip_tool_unavailable:
  assumes "\<And>command env fs. snd (sh command env fs) = fs"
  shows "files (snd (record_clip sh w)) = files w \<and>
         map (\<lambda>c. snd (sh c (environ w) (files w))) (issued sh w) = [files (snd (record_clip sh w))]"
  by (simp add: issued_eq record_clip_world assms)

theorem record_clip_tool_unavailable_witness:
  "map (\<lambda>c. fst (not_found c (environ w1) (files w1))) (issued not_found w1) = [32512] \<and>
   files (snd (record_clip not_found w1)) = files w1 \<and>
   files w1 ''/var/www/html/clips/2024-03-09_07-05-02.mp4'' = None"
proof -
  have "snd (not_found command env fs) = fs" for command env fs
    by (simp add: not_found_def)
  then have "files (snd (record_clip not_found w1)) = files w1"
    using record_clip_tool_unavailable [of not_found w1] by simp
  then show ?thesis
    by (simp add: not_found_def issued_eq) (simp add: w1_def)
qed





text \<open>
  C8. Two executions that read the same clock value issue the same command line,
  whatever the shells, the global names, the environments, the file systems and the
  earlier calls are. The words of the command line are the literals \<^verbatim>\<open>ffmpeg\<close>, \<^verbatim>\<open>-i\<close>, the
  camera URI, \<^verbatim>\<open>-t\<close>, \<^verbatim>\<open>30\<close>, \<^verbatim>\<open>-vcodec\<close>, \<^verbatim>\<open>copy\<close>, and the path made of the literal
  directory, the timestamp and the literal suffix.
\<close>

theorem record_clip_command_deterministic:
  "clock w = clock w' \<Longrightarrow>
   issued sh w = issued sh' w' \<and>
   map shell_words (issued sh w) =
     [[''ffmpeg'', ''-i'', ''rtsp://<camera_ip>:554/h264Preview_01_main'', ''-t'', ''30'',
       ''-vcodec'', ''copy'',
       ''/var/www/html/clips/'' @ strftime (clock w) ''%Y-%m-%d_%H-%M-%S'' @ ''.mp4'']]"
  by (simp only: issued_words) (simp add: issued_eq)

theorem record_clip_command_deterministic_witness:
  "clock w0 = clock w1 \<and> w0 \<noteq> w1 \<and> issued capture_ok w0 = issued not_found w1"
proof -
  have "calls w0 \<noteq> calls w1"
    by (simp add: w0_def w1_def)
  then have "w0 \<noteq> w1"
    by auto
  moreover have "clock w0 = clock w1"
    by (simp only: clock_w0)
  ultimately show ?thesis
    using record_clip_command_deterministic [of w0 w1 capture_ok not_found] by simp
qed

text \<open>
  C9. For every clock reading, the timestamp consists of ASCII digits, hyphens and
  underscores only; none of its characters is special to the shell; and the command
  line always has eight words, of which the first seven are the same literals: the
  timestamp changes the last word and nothing else.
\<close>

theorem timestamp_shell_safe:
  "set (strftime (clock w) ''%Y-%m-%d_%H-%M-%S'') \<subseteq> set ''0123456789-_'' \<and>
   set (strftime (clock w) ''%Y-%m-%d_%H-%M-%S'') \<inter> set shell_special = {} \<and>
   map (butlast \<circ> shell_words) (issued sh w) =
     [[''ffmpeg'', ''-i'', ''rtsp://<camera_ip>:554/h264Preview_01_main'', ''-t'', ''30'',
       ''-vcodec'', ''copy'']] \<and>
   map (length \<circ> shell_words) (issued sh w) = [8]"
proof -
  have a: "set (strftime (clock w) ''%Y-%m-%d_%H-%M-%S'') \<subseteq> set ''0123456789-_''"
    by (rule strftime_chars)
  with allowed_not_special
  have b: "set (strftime (clock w) ''%Y-%m-%d_%H-%M-%S'') \<inter> set shell_special = {}"
    by blast
  have "map (butlast \<circ> shell_words) (issued sh w) = map butlast (map shell_words (issued sh w))"
    by simp
  also have "\<dots> = [[''ffmpeg'', ''-i'', ''rtsp://<camera_ip>:554/h264Preview_01_main'', ''-t'',
       ''30'', ''-vcodec'', ''copy'']]"
    by (simp only: issued_words) simp
  finally have c: "map (butlast \<circ> shell_words) (issued sh w) =
     [[''ffmpeg'', ''-i'', ''rtsp://<camera_ip>:554/h264Preview_01_main'', ''-t'', ''30'',
       ''-vcodec'', ''copy'']]" .
  have "map (length \<circ> shell_words) (issued sh w) = map length (map shell_words (issued sh w))"
    by simp
  also have "\<dots> = [8]"
    by (simp only: issued_words) simp
  finally have d: "map (length \<circ> shell_words) (issued sh w) = [8]" .
  from a b c d show ?thesis
    by (simp only: simp_thms)
qed

theorem timestamp_shell_safe_witness:
  "set ''2024-03-09_07-05-02'' \<subseteq> set ''0123456789-_'' \<and>
   set ''2024-03-09_07-05-02'' \<inter> set shell_special = {} \<and>
   map (length \<circ> shell_words) (issued capture_ok w0) = [8]"
  using timestamp_shell_safe [of w0 capture_ok]
  by (simp only: clock_w0 dt0_timestamp simp_thms)

text \<open>
  C10. Running the module body executes \<open>record_clip\<close> exactly once, whatever \<^verbatim>\<open>__name__\<close>
  is: the trace of \<^verbatim>\<open>os.system\<close> grows by exactly the one capture command, and the file
  system is the one the shell returned for it. The witness loads the module as an import
  (\<^verbatim>\<open>__name__ = "record_clip"\<close>): the clip is recorded all the same.
\<close>

theorem module_body_runs_record_clip:
  "drop (length (calls w)) (calls (module_body sh name w)) =
     [''ffmpeg -i rtsp://<camera_ip>:554/h264Preview_01_main -t 30 -vcodec copy /var/www/html/clips/''
        @ strftime (clock w) ''%Y-%m-%d_%H-%M-%S'' @ ''.mp4''] \<and>
   files (module_body sh name w) =
     snd (sh (''ffmpeg -i rtsp://<camera_ip>:554/h264Preview_01_main -t 30 -vcodec copy /var/www/html/clips/''
                @ strftime (clock w) ''%Y-%m-%d_%H-%M-%S'' @ ''.mp4'')
            (environ w) (files w))"
  by (simp add: module_body_def Let_def case_prod_beta record_clip_world)

theorem module_body_runs_record_clip_witness:
  "calls (module_body capture_ok ''record_clip'' w0) =
     [''ffmpeg -i rtsp://<camera_ip>:554/h264Preview_01_main -t 30 -vcodec copy /var/www/html/clips/2024-03-09_07-05-02.mp4''] \<and>
   files (module_body capture_ok ''record_clip'' w0) ''/var/www/html/clips/2024-03-09_07-05-02.mp4'' =
     Some ''video''"
proof -
  have a: "calls w0 = []" "files w0 = Map.empty" "environ w0 = Map.empty"
    by (simp_all add: w0_def)
  have b: "last (shell_words
      (''ffmpeg -i rtsp://<camera_ip>:554/h264Preview_01_main -t 30 -vcodec copy /var/www/html/clips/''
         @ ''2024-03-09_07-05-02'' @ ''.mp4'')) = ''/var/www/html/clips/2024-03-09_07-05-02.mp4''"
    using last_command_word [of dt0] by (simp only: dt0_timestamp) simp
  show ?thesis
    using module_body_runs_record_clip [of w0 capture_ok "''record_clip''"] b
    by (simp only: a clock_w0 dt0_timestamp capture_ok_def) simp
qed

end
